theory Spec2Isabelle
  imports Main
begin

section \<open>The type-checker's view of types (package go/types)\<close>

text \<open>
  The analysis in package \<^verbatim>\<open>stubmethods\<close> only inspects types through a handful of
  operations of the Go standard library: the dynamic kind of a \<^verbatim>\<open>types.Type\<close>
  (type assertions to \<^verbatim>\<open>*types.Named\<close>, \<^verbatim>\<open>*types.Pointer\<close>, \<^verbatim>\<open>*types.Slice\<close>,
  \<^verbatim>\<open>*types.Signature\<close>), \<^verbatim>\<open>types.Unalias\<close>, \<^verbatim>\<open>types.IsInterface\<close>, and the
  \<^verbatim>\<open>Pkg\<close> and \<^verbatim>\<open>Name\<close> of the object that declares a named type.  A
  \<^verbatim>\<open>*types.TypeName\<close> is a record of its package (absent for the universe scope)
  and its name; a type is a term of the datatype below.
\<close>

record TypeName =
  Pkg :: "string option"
  Name :: string

datatype gotype =
    TBasic string
  | TNamed Named
  | TAlias TypeName gotype
  | TPointer gotype
  | TSlice gotype
  | TSignature "gotype list" bool
  | TInterface "string list"
  | TStruct "gotype list"
  | TTuple "gotype list"
  | TTypeParam string
and Named = MkNamed (Obj: TypeName) (Underlying: gotype)

text \<open>
  \<^verbatim>\<open>TSignature ps v\<close> is a \<^verbatim>\<open>*types.Signature\<close> with parameter tuple \<open>ps\<close> and
  \<^verbatim>\<open>Variadic() = v\<close>; \<^verbatim>\<open>TAlias obj rhs\<close> is a \<^verbatim>\<open>*types.Alias\<close> declared
  \<^verbatim>\<open>type obj = rhs\<close>.
\<close>

text \<open>\<^verbatim>\<open>types.Unalias\<close>: follow the alias chain until a non-alias type is reached.\<close>

fun Unalias :: "gotype \<Rightarrow> gotype" where
  "Unalias (TAlias obj rhs) = Unalias rhs"
| "Unalias t = t"

text \<open>\<^verbatim>\<open>types.IsInterface\<close> at a named type: its underlying type is an interface.\<close>

definition IsInterface :: "Named \<Rightarrow> bool" where
  "IsInterface named = (case Underlying named of TInterface ms \<Rightarrow> True | _ \<Rightarrow> False)"

section \<open>Syntax (package go/ast)\<close>

text \<open>
  Syntax nodes are compared by pointer identity when they are keys of the maps of
  \<^verbatim>\<open>types.Info\<close>; every expression therefore carries an identifier.  A call expression
  keeps its callee, its arguments and the position of its closing parenthesis, from
  which go/ast computes \<^verbatim>\<open>Pos()\<close> and \<^verbatim>\<open>End()\<close>; every other expression (identifier,
  composite literal, selector, function literal, ...) keeps its two positions.
  \<^verbatim>\<open>token.Pos\<close> is an integer.
\<close>

datatype Expr =
    CallExpr nat Expr "Expr list" int
  | OtherExpr nat int int

fun ExprId :: "Expr \<Rightarrow> nat" where
  "ExprId (CallExpr n f args rparen) = n"
| "ExprId (OtherExpr n p e) = n"

fun ExprPos :: "Expr \<Rightarrow> int" where
  "ExprPos (CallExpr n f args rparen) = ExprPos f"
| "ExprPos (OtherExpr n p e) = p"

fun ExprEnd :: "Expr \<Rightarrow> int" where
  "ExprEnd (CallExpr n f args rparen) = rparen + 1"
| "ExprEnd (OtherExpr n p e) = e"

record Field =
  Field_Names :: "nat list"
  Field_Type :: Expr

record FieldList =
  FieldList_List :: "Field list"

record FuncType =
  FuncType_Params :: "FieldList option"
  FuncType_Results :: "FieldList option"

record FuncDecl =
  FuncDecl_Name :: nat
  FuncDecl_Type :: FuncType

record FuncLit =
  FuncLit_Id :: nat
  FuncLit_Type :: FuncType

record ValueSpec =
  ValueSpec_Names :: "nat list"
  ValueSpec_Type :: "Expr option"
  ValueSpec_Values :: "Expr list"

record ReturnStmt =
  ReturnStmt_Return :: int
  ReturnStmt_Results :: "Expr list"

record AssignStmt =
  AssignStmt_Lhs :: "Expr list"
  AssignStmt_Rhs :: "Expr list"

text \<open>
  The nodes of a path, as far as the type switches of the analysis tell them apart.
  A function literal on the path is its own kind of node (it is the only expression
  whose body can enclose a statement).
\<close>

datatype Node =
    ValueSpecNode ValueSpec
  | ReturnStmtNode ReturnStmt
  | AssignStmtNode AssignStmt
  | ExprNode Expr
  | FuncDeclNode FuncDecl
  | FuncLitNode FuncLit
  | OtherNode

text \<open>
  \<^verbatim>\<open>types.Info\<close>: \<^verbatim>\<open>Types\<close> maps an expression to its recorded type, \<^verbatim>\<open>Defs\<close> maps
  a defining identifier to its object (only the presence of the key is read).
\<close>

record Info =
  Types :: "nat \<rightharpoonup> gotype"
  Defs :: "nat \<rightharpoonup> string"

section \<open>Package stubmethods\<close>

record StubInfo =
  Fset :: nat
  Interface :: TypeName
  Concrete :: Named
  Pointer :: bool

text \<open>A run-time panic of the Go program is a value of the model.\<close>

datatype panic = NilPointerDereference | IndexOutOfRange

datatype error =
    PosNotWithinReturn int int int
  | NoEnclosingFunction
  | OperandResultMismatch nat nat

text \<open>
  The four analyzers start with the same loop: the first element of a list of
  expressions whose span contains the position, with its index.
\<close>

fun findOperand :: "int \<Rightarrow> nat \<Rightarrow> Expr list \<Rightarrow> (nat \<times> Expr) option" where
  "findOperand pos i [] = None"
| "findOperand pos i (r # rs) =
     (if ExprPos r \<le> pos \<and> pos \<le> ExprEnd r then Some (i, r)
      else findOperand pos (Suc i) rs)"

definition ifaceObjFromType :: "gotype \<Rightarrow> TypeName option" where
  "ifaceObjFromType t =
     (case Unalias t of
        TNamed named \<Rightarrow>
          if \<not> IsInterface named then None
          else if Pkg (Obj named) = None \<and> Name (Obj named) \<noteq> ''error'' then None
          else Some (Obj named)
      | _ \<Rightarrow> None)"

text \<open>
  \<^verbatim>\<open>ifaceType\<close> is also called with a nil expression (a declaration without a
  declared type); the type checker records no type for the nil key.
\<close>

definition ifaceType :: "Expr option \<Rightarrow> Info \<Rightarrow> TypeName option" where
  "ifaceType e info =
     (case e of
        None \<Rightarrow> None
      | Some e' \<Rightarrow>
          (case Types info (ExprId e') of
             None \<Rightarrow> None
           | Some typ \<Rightarrow> ifaceObjFromType typ))"

definition concreteType :: "Expr \<Rightarrow> Info \<Rightarrow> Named option \<times> bool" where
  "concreteType e info =
     (case Types info (ExprId e) of
        None \<Rightarrow> (None, False)
      | Some typ \<Rightarrow>
          (let (typ', isPtr) =
                 (case Unalias typ of
                    TPointer elem \<Rightarrow> (elem, True)
                  | _ \<Rightarrow> (typ, False))
           in case Unalias typ' of
                TNamed named \<Rightarrow> (Some named, isPtr)
              | _ \<Rightarrow> (None, False)))"

text \<open>
  Every analyzer follows \<^verbatim>\<open>concreteType\<close> with the same guard,
  \<^verbatim>\<open>concType == nil || concType.Obj().Pkg() == nil\<close>; \<open>None\<close> is the outcome in
  which the guard fires.
\<close>

definition concreteWithPkg :: "Expr \<Rightarrow> Info \<Rightarrow> (Named \<times> bool) option" where
  "concreteWithPkg e info =
     (case concreteType e info of
        (None, pointer) \<Rightarrow> None
      | (Some concType, pointer) \<Rightarrow>
          (case Pkg (Obj concType) of
             None \<Rightarrow> None
           | Some pkg \<Rightarrow> Some (concType, pointer)))"

fun enclosingFunction :: "Node list \<Rightarrow> Info \<Rightarrow> FuncType option" where
  "enclosingFunction [] info = None"
| "enclosingFunction (FuncDeclNode t # path) info =
     (case Defs info (FuncDecl_Name t) of
        Some obj \<Rightarrow> Some (FuncDecl_Type t)
      | None \<Rightarrow> enclosingFunction path info)"
| "enclosingFunction (FuncLitNode t # path) info =
     (case Types info (FuncLit_Id t) of
        Some tv \<Rightarrow> Some (FuncLit_Type t)
      | None \<Rightarrow> enclosingFunction path info)"
| "enclosingFunction (node # path) info = enclosingFunction path info"

text \<open>\<^verbatim>\<open>sig.Params().At(i)\<close> panics when \<open>i\<close> is out of range.\<close>

definition At :: "gotype list \<Rightarrow> int \<Rightarrow> panic + gotype" where
  "At vars i =
     (if 0 \<le> i \<and> i < int (length vars) then Inr (vars ! nat i) else Inl IndexOutOfRange)"

text \<open>
  The parameter type aligned with argument \<open>argIdx\<close> in \<^verbatim>\<open>fromCallExpr\<close>;
  \<open>Inr None\<close> is the nil \<^verbatim>\<open>paramType\<close> that a type error leaves.
\<close>

definition paramType :: "gotype list \<Rightarrow> bool \<Rightarrow> nat \<Rightarrow> panic + gotype option" where
  "paramType params variadic argIdx =
     (if variadic \<and> int argIdx \<ge> int (length params) - 1 then
        (case At params (int (length params) - 1) of
           Inl p \<Rightarrow> Inl p
         | Inr v \<Rightarrow> (case v of TSlice elem \<Rightarrow> Inr (Some elem) | _ \<Rightarrow> Inr None))
      else if argIdx < length params then
        (case At params (int argIdx) of
           Inl p \<Rightarrow> Inl p
         | Inr v \<Rightarrow> Inr (Some v))
      else Inr None)"

text \<open>
  \<^verbatim>\<open>fromCallExpr\<close> reads \<^verbatim>\<open>call.Fun\<close> and \<^verbatim>\<open>call.Args\<close> of its call expression;
  they are its last two arguments here.
\<close>

definition fromCallExpr ::
  "nat \<Rightarrow> Info \<Rightarrow> int \<Rightarrow> Expr \<Rightarrow> Expr list \<Rightarrow> panic + StubInfo option" where
  "fromCallExpr fset info pos callFun callArgs =
     (case findOperand pos 0 callArgs of
        None \<Rightarrow> Inr None
      | Some (argIdx, arg) \<Rightarrow>
          (case concreteWithPkg arg info of
             None \<Rightarrow> Inr None
           | Some (concType, pointer) \<Rightarrow>
               (case Types info (ExprId callFun) of
                  None \<Rightarrow> Inr None
                | Some tv \<Rightarrow>
                    (case Unalias tv of
                       TSignature params variadic \<Rightarrow>
                         (case paramType params variadic argIdx of
                            Inl p \<Rightarrow> Inl p
                          | Inr None \<Rightarrow> Inr None
                          | Inr (Some pt) \<Rightarrow>
                              (case ifaceObjFromType pt of
                                 None \<Rightarrow> Inr None
                               | Some iface \<Rightarrow>
                                   Inr (Some \<lparr>Fset = fset, Interface = iface,
                                              Concrete = concType, Pointer = pointer\<rparr>)))
                     | _ \<Rightarrow> Inr None))))"

text \<open>\<^verbatim>\<open>Pos()\<close> and \<^verbatim>\<open>End()\<close> of a return statement (go/ast), read by the error message.\<close>

definition ReturnStmt_Pos :: "ReturnStmt \<Rightarrow> int" where
  "ReturnStmt_Pos ret = ReturnStmt_Return ret"

definition ReturnStmt_End :: "ReturnStmt \<Rightarrow> int" where
  "ReturnStmt_End ret =
     (case ReturnStmt_Results ret of
        [] \<Rightarrow> ReturnStmt_Return ret + 6
      | r # rs \<Rightarrow> ExprEnd (last (r # rs)))"

text \<open>
  \<^verbatim>\<open>fromReturnStmt\<close> returns a pair of a result and an error, either of which may be
  nil.  \<^verbatim>\<open>funcType.Results\<close> is a pointer that is nil for a function without results,
  and \<^verbatim>\<open>funcType.Results.List\<close> dereferences it.
\<close>

definition fromReturnStmt ::
  "nat \<Rightarrow> Info \<Rightarrow> int \<Rightarrow> Node list \<Rightarrow> ReturnStmt \<Rightarrow> panic + (StubInfo option \<times> error option)" where
  "fromReturnStmt fset info pos path ret =
     (case findOperand pos 0 (ReturnStmt_Results ret) of
        None \<Rightarrow>
          Inr (None, Some (PosNotWithinReturn pos (ReturnStmt_Pos ret) (ReturnStmt_End ret)))
      | Some (returnIdx, r) \<Rightarrow>
          (case concreteWithPkg r info of
             None \<Rightarrow> Inr (None, None)
           | Some (concType, pointer) \<Rightarrow>
               (case enclosingFunction path info of
                  None \<Rightarrow> Inr (None, Some NoEnclosingFunction)
                | Some funcType \<Rightarrow>
                    (case FuncType_Results funcType of
                       None \<Rightarrow> Inl NilPointerDereference
                     | Some results \<Rightarrow>
                         if length (FieldList_List results) \<noteq> length (ReturnStmt_Results ret)
                         then Inr (None, Some (OperandResultMismatch
                                (length (ReturnStmt_Results ret)) (length (FieldList_List results))))
                         else
                           (case ifaceType (Some (Field_Type (FieldList_List results ! returnIdx))) info of
                              None \<Rightarrow> Inr (None, None)
                            | Some iface \<Rightarrow>
                                Inr (Some \<lparr>Fset = fset, Interface = iface,
                                           Concrete = concType, Pointer = pointer\<rparr>, None))))))"

definition fromValueSpec :: "nat \<Rightarrow> Info \<Rightarrow> ValueSpec \<Rightarrow> int \<Rightarrow> StubInfo option" where
  "fromValueSpec fset info spec pos =
     (case findOperand pos 0 (ValueSpec_Values spec) of
        None \<Rightarrow> None
      | Some (i, r) \<Rightarrow>
          (let (ifaceNode, rhs) =
                 (case r of
                    CallExpr n callFun callArgs rparen \<Rightarrow>
                      if ValueSpec_Type spec = None \<and> length callArgs = 1
                      then (Some callFun, callArgs ! 0)
                      else (ValueSpec_Type spec, r)
                  | OtherExpr n p e \<Rightarrow> (ValueSpec_Type spec, r))
           in case concreteWithPkg rhs info of
                None \<Rightarrow> None
              | Some (concType, pointer) \<Rightarrow>
                  (case ifaceType ifaceNode info of
                     None \<Rightarrow> None
                   | Some ifaceObj \<Rightarrow>
                       Some \<lparr>Fset = fset, Interface = ifaceObj,
                             Concrete = concType, Pointer = pointer\<rparr>)))"

definition fromAssignStmt :: "nat \<Rightarrow> Info \<Rightarrow> AssignStmt \<Rightarrow> int \<Rightarrow> StubInfo option" where
  "fromAssignStmt fset info assign pos =
     (case findOperand pos 0 (AssignStmt_Rhs assign) of
        None \<Rightarrow> None
      | Some (i, rhs) \<Rightarrow>
          if i \<ge> length (AssignStmt_Lhs assign) then None
          else
            (case ifaceType (Some (AssignStmt_Lhs assign ! i)) info of
               None \<Rightarrow> None
             | Some ifaceObj \<Rightarrow>
                 (case concreteWithPkg rhs info of
                    None \<Rightarrow> None
                  | Some (concType, pointer) \<Rightarrow>
                      Some \<lparr>Fset = fset, Interface = ifaceObj,
                            Concrete = concType, Pointer = pointer\<rparr>)))"

text \<open>
  The loop of \<^verbatim>\<open>GetStubInfo\<close> over the nodes still to visit; the return analyzer
  receives the whole path, and its error is dropped.
\<close>

fun GetStubInfo_loop ::
  "nat \<Rightarrow> Info \<Rightarrow> Node list \<Rightarrow> int \<Rightarrow> Node list \<Rightarrow> panic + StubInfo option" where
  "GetStubInfo_loop fset info path pos [] = Inr None"
| "GetStubInfo_loop fset info path pos (ValueSpecNode n # ns) =
     Inr (fromValueSpec fset info n pos)"
| "GetStubInfo_loop fset info path pos (ReturnStmtNode n # ns) =
     (case fromReturnStmt fset info pos path n of
        Inl p \<Rightarrow> Inl p
      | Inr (si, err) \<Rightarrow> Inr si)"
| "GetStubInfo_loop fset info path pos (AssignStmtNode n # ns) =
     Inr (fromAssignStmt fset info n pos)"
| "GetStubInfo_loop fset info path pos (ExprNode (CallExpr n callFun callArgs rparen) # ns) =
     (case fromCallExpr fset info pos callFun callArgs of
        Inl p \<Rightarrow> Inl p
      | Inr (Some si) \<Rightarrow> Inr (Some si)
      | Inr None \<Rightarrow> GetStubInfo_loop fset info path pos ns)"
| "GetStubInfo_loop fset info path pos (n # ns) = GetStubInfo_loop fset info path pos ns"

definition GetStubInfo :: "nat \<Rightarrow> Info \<Rightarrow> Node list \<Rightarrow> int \<Rightarrow> panic + StubInfo option" where
  "GetStubInfo fset info path pos = GetStubInfo_loop fset info path pos path"

section \<open>Notions used to state the properties\<close>

text \<open>
  A node that the loop of \<^verbatim>\<open>GetStubInfo\<close> passes over: a node of none of the four
  shapes, or a call expression whose analysis returns nil.
\<close>

fun passedOver :: "nat \<Rightarrow> Info \<Rightarrow> int \<Rightarrow> Node \<Rightarrow> bool" where
  "passedOver fset info pos (ValueSpecNode n) = False"
| "passedOver fset info pos (ReturnStmtNode n) = False"
| "passedOver fset info pos (AssignStmtNode n) = False"
| "passedOver fset info pos (ExprNode (CallExpr n callFun callArgs rparen)) =
     (fromCallExpr fset info pos callFun callArgs = Inr None)"
| "passedOver fset info pos n = True"





text \<open>
  What each analyzer does once its loop has found an operand: the body of the
  analyzer after the loop, as a function of the operand and its index.  They serve to
  say which operand an analyzer has matched.
\<close>

definition fromCallExpr_at ::
  "nat \<Rightarrow> Info \<Rightarrow> Expr \<Rightarrow> nat \<Rightarrow> Expr \<Rightarrow> panic + StubInfo option" where
  "fromCallExpr_at fset info callFun argIdx arg =
     (case concreteWithPkg arg info of
        None \<Rightarrow> Inr None
      | Some (concType, pointer) \<Rightarrow>
          (case Types info (ExprId callFun) of
             None \<Rightarrow> Inr None
           | Some tv \<Rightarrow>
               (case Unalias tv of
                  TSignature params variadic \<Rightarrow>
                    (case paramType params variadic argIdx of
                       Inl p \<Rightarrow> Inl p
                     | Inr None \<Rightarrow> Inr None
                     | Inr (Some pt) \<Rightarrow>
                         (case ifaceObjFromType pt of
                            None \<Rightarrow> Inr None
                          | Some iface \<Rightarrow>
                              Inr (Some \<lparr>Fset = fset, Interface = iface,
                                         Concrete = concType, Pointer = pointer\<rparr>)))
                | _ \<Rightarrow> Inr None)))"

definition fromReturnStmt_at ::
  "nat \<Rightarrow> Info \<Rightarrow> Node list \<Rightarrow> nat \<Rightarrow> nat \<Rightarrow> Expr
     \<Rightarrow> panic + (StubInfo option \<times> error option)" where
  "fromReturnStmt_at fset info path operands returnIdx r =
     (case concreteWithPkg r info of
        None \<Rightarrow> Inr (None, None)
      | Some (concType, pointer) \<Rightarrow>
          (case enclosingFunction path info of
             None \<Rightarrow> Inr (None, Some NoEnclosingFunction)
           | Some funcType \<Rightarrow>
               (case FuncType_Results funcType of
                  None \<Rightarrow> Inl NilPointerDereference
                | Some results \<Rightarrow>
                    if length (FieldList_List results) \<noteq> operands
                    then Inr (None, Some (OperandResultMismatch operands
                                            (length (FieldList_List results))))
                    else
                      (case ifaceType (Some (Field_Type (FieldList_List results ! returnIdx))) info of
                         None \<Rightarrow> Inr (None, None)
                       | Some iface \<Rightarrow>
                           Inr (Some \<lparr>Fset = fset, Interface = iface,
                                      Concrete = concType, Pointer = pointer\<rparr>, None)))))"

definition fromValueSpec_at :: "nat \<Rightarrow> Info \<Rightarrow> Expr option \<Rightarrow> Expr \<Rightarrow> StubInfo option" where
  "fromValueSpec_at fset info declared r =
     (let (ifaceNode, rhs) =
            (case r of
               CallExpr n callFun callArgs rparen \<Rightarrow>
                 if declared = None \<and> length callArgs = 1
                 then (Some callFun, callArgs ! 0)
                 else (declared, r)
             | OtherExpr n p e \<Rightarrow> (declared, r))
      in case concreteWithPkg rhs info of
           None \<Rightarrow> None
         | Some (concType, pointer) \<Rightarrow>
             (case ifaceType ifaceNode info of
                None \<Rightarrow> None
              | Some ifaceObj \<Rightarrow>
                  Some \<lparr>Fset = fset, Interface = ifaceObj,
                        Concrete = concType, Pointer = pointer\<rparr>))"

definition fromAssignStmt_at :: "nat \<Rightarrow> Info \<Rightarrow> Expr list \<Rightarrow> nat \<Rightarrow> Expr \<Rightarrow> StubInfo option" where
  "fromAssignStmt_at fset info lhss i rhs =
     (if i \<ge> length lhss then None
      else
        (case ifaceType (Some (lhss ! i)) info of
           None \<Rightarrow> None
         | Some ifaceObj \<Rightarrow>
             (case concreteWithPkg rhs info of
                None \<Rightarrow> None
              | Some (concType, pointer) \<Rightarrow>
                  Some \<lparr>Fset = fset, Interface = ifaceObj,
                        Concrete = concType, Pointer = pointer\<rparr>)))"

text \<open>
  Two facts about well-formed input that the analysis relies on without checking: the
  function types on the path have a result list, and a variadic signature has at
  least one parameter (go/types builds no other).
\<close>

fun hasResults :: "Node \<Rightarrow> bool" where
  "hasResults (FuncDeclNode t) = (FuncType_Results (FuncDecl_Type t) \<noteq> None)"
| "hasResults (FuncLitNode t) = (FuncType_Results (FuncLit_Type t) \<noteq> None)"
| "hasResults n = True"

definition variadicHasParam :: "Info \<Rightarrow> bool" where
  "variadicHasParam info =
     (\<forall>k t params. Types info k = Some t \<and> Unalias t = TSignature params True
        \<longrightarrow> params \<noteq> [])"

section \<open>Example programs\<close>

text \<open>
  Concrete types and syntax on which the theorems below are evaluated:
  \<^verbatim>\<open>type T struct{}\<close>, \<^verbatim>\<open>type W struct{}\<close>, \<^verbatim>\<open>type I interface{ M() }\<close>,
  \<^verbatim>\<open>type J interface{ N() }\<close> and \<^verbatim>\<open>type IA = I\<close> of a package \<^verbatim>\<open>p\<close>, and the
  two named interfaces of the universe scope, \<^verbatim>\<open>error\<close> and \<^verbatim>\<open>comparable\<close>.
\<close>

definition named_T :: Named where
  "named_T = MkNamed \<lparr>Pkg = Some ''p'', Name = ''T''\<rparr> (TStruct [])"

definition named_W :: Named where
  "named_W = MkNamed \<lparr>Pkg = Some ''p'', Name = ''W''\<rparr> (TStruct [])"

definition named_I :: Named where
  "named_I = MkNamed \<lparr>Pkg = Some ''p'', Name = ''I''\<rparr> (TInterface [''M''])"

definition named_J :: Named where
  "named_J = MkNamed \<lparr>Pkg = Some ''p'', Name = ''J''\<rparr> (TInterface [''N''])"


definition alias_TA :: gotype where
  "alias_TA = TAlias \<lparr>Pkg = Some ''p'', Name = ''TA''\<rparr> (TNamed named_T)"

definition named_error :: Named where
  "named_error = MkNamed \<lparr>Pkg = None, Name = ''error''\<rparr> (TInterface [''Error''])"

definition named_comparable :: Named where
  "named_comparable = MkNamed \<lparr>Pkg = None, Name = ''comparable''\<rparr> (TInterface [])"

text \<open>An operand \<^verbatim>\<open>T{}\<close> spanning positions 20 to 23, with identifier 3.\<close>

definition operand_T :: Expr where
  "operand_T = OtherExpr 3 20 23"

definition info_of :: "(nat \<times> gotype) list \<Rightarrow> (nat \<times> string) list \<Rightarrow> Info" where
  "info_of ts ds = \<lparr>Types = map_of ts, Defs = map_of ds\<rparr>"

text \<open>
  Further operands \<^verbatim>\<open>b\<close> and \<^verbatim>\<open>c\<close>, the callee \<^verbatim>\<open>g\<close>, the calls \<^verbatim>\<open>g(T{})\<close> and
  \<^verbatim>\<open>g()\<close>, a type expression \<^verbatim>\<open>I\<close> and a variable \<^verbatim>\<open>x\<close>.
\<close>

definition operand_b :: Expr where
  "operand_b = OtherExpr 4 25 28"

definition operand_c :: Expr where
  "operand_c = OtherExpr 7 30 33"

definition callee_g :: Expr where
  "callee_g = OtherExpr 5 18 19"

definition call_g :: Expr where
  "call_g = CallExpr 6 callee_g [operand_T] 23"

definition call_g_spread :: Expr where
  "call_g_spread = CallExpr 6 callee_g [] 20"

definition typeExpr_I :: Expr where
  "typeExpr_I = OtherExpr 2 14 15"

definition var_x :: Expr where
  "var_x = OtherExpr 11 14 15"

definition stub :: "TypeName \<Rightarrow> Named \<Rightarrow> bool \<Rightarrow> StubInfo" where
  "stub iface conc ptr = \<lparr>Fset = 0, Interface = iface, Concrete = conc, Pointer = ptr\<rparr>"

text \<open>
  Calls \<^verbatim>\<open>g(T{}, b, c)\<close>: with \<^verbatim>\<open>func g(x J, ys ...I)\<close>, with \<^verbatim>\<open>func g(x J)\<close>, and
  with \<^verbatim>\<open>func g(x interface{ M() }) W\<close>.
\<close>

definition info_variadic :: Info where
  "info_variadic = info_of
     [(3, TNamed named_T), (4, TNamed named_T), (7, TNamed named_T),
      (5, TSignature [TNamed named_J, TSlice (TNamed named_I)] True)] []"

definition info_fixed :: Info where
  "info_fixed = info_of
     [(3, TNamed named_T), (4, TNamed named_T), (7, TNamed named_T),
      (5, TSignature [TNamed named_J] False)] []"

definition info_literal :: Info where
  "info_literal = info_of
     [(3, TNamed named_T), (5, TSignature [TInterface [''M'']] False), (6, TNamed named_W),
      (11, TNamed named_I)] [(1, ''f'')]"

text \<open>
  Functions \<^verbatim>\<open>func f() (a, b I) { return T{}, T{} }\<close>, its form
  \<^verbatim>\<open>func f() (I, I)\<close> with one field per result, \<^verbatim>\<open>func f() (I, error) { return g() }\<close>
  and \<^verbatim>\<open>func f() { return g(T{}) }\<close>.
\<close>

definition funcType_grouped :: FuncType where
  "funcType_grouped =
     \<lparr>FuncType_Params = Some \<lparr>FieldList_List = []\<rparr>,
      FuncType_Results = Some \<lparr>FieldList_List =
        [\<lparr>Field_Names = [8, 9], Field_Type = typeExpr_I\<rparr>]\<rparr>\<rparr>"

definition funcType_two :: FuncType where
  "funcType_two =
     \<lparr>FuncType_Params = Some \<lparr>FieldList_List = []\<rparr>,
      FuncType_Results = Some \<lparr>FieldList_List =
        [\<lparr>Field_Names = [], Field_Type = typeExpr_I\<rparr>,
         \<lparr>Field_Names = [], Field_Type = OtherExpr 10 16 17\<rparr>]\<rparr>\<rparr>"

definition funcType_none :: FuncType where
  "funcType_none =
     \<lparr>FuncType_Params = Some \<lparr>FieldList_List = []\<rparr>, FuncType_Results = None\<rparr>"

definition ret_two :: ReturnStmt where
  "ret_two = \<lparr>ReturnStmt_Return = 13, ReturnStmt_Results = [operand_T, operand_b]\<rparr>"

definition ret_call :: ReturnStmt where
  "ret_call = \<lparr>ReturnStmt_Return = 11, ReturnStmt_Results = [call_g]\<rparr>"

definition ret_spread :: ReturnStmt where
  "ret_spread = \<lparr>ReturnStmt_Return = 11, ReturnStmt_Results = [call_g_spread]\<rparr>"

definition path_in :: "ReturnStmt \<Rightarrow> FuncType \<Rightarrow> Node list" where
  "path_in ret funcType =
     [ReturnStmtNode ret, OtherNode,
      FuncDeclNode \<lparr>FuncDecl_Name = 1, FuncDecl_Type = funcType\<rparr>]"

definition info_return :: Info where
  "info_return = info_of
     [(2, TNamed named_I), (10, TNamed named_I), (3, TNamed named_T), (4, TNamed named_T),
      (6, TTuple [TNamed named_I, TNamed named_error])] [(1, ''f'')]"

text \<open>
  Declarations \<^verbatim>\<open>var _ I = T{}\<close> and \<^verbatim>\<open>var _ = I(T{})\<close>, the same with \<^verbatim>\<open>&T{}\<close>
  and the aliases \<^verbatim>\<open>IA\<close> and \<^verbatim>\<open>TA\<close>, and the declaration \<^verbatim>\<open>var _ error = T{}\<close>.
\<close>

definition spec_typed :: ValueSpec where
  "spec_typed =
     \<lparr>ValueSpec_Names = [12], ValueSpec_Type = Some typeExpr_I, ValueSpec_Values = [operand_T]\<rparr>"

definition info_decl :: Info where
  "info_decl = info_of [(2, TNamed named_I), (3, TPointer (TNamed named_T))] []"


definition info_error :: Info where
  "info_error = info_of [(2, TNamed named_error), (3, TNamed named_T)] []"

text \<open>
  Three candidate operands of which the second and the third contain position 27:
  \<^verbatim>\<open>T{}\<close> of type \<^verbatim>\<open>W\<close> here, \<^verbatim>\<open>b\<close> of type \<^verbatim>\<open>T\<close>, and a late operand of type
  \<^verbatim>\<open>W\<close> whose span overlaps that of \<^verbatim>\<open>b\<close>; they are the arguments of
  \<^verbatim>\<open>g(x J, ys ...I)\<close>, the operands of a return in \<^verbatim>\<open>func f() (J, I, J)\<close>, the
  initializers of \<^verbatim>\<open>var u, v, w I\<close>, and the right-hand sides of an assignment to
  variables of types \<^verbatim>\<open>J\<close>, \<^verbatim>\<open>I\<close> and \<^verbatim>\<open>J\<close>.
\<close>

definition operand_late :: Expr where
  "operand_late = OtherExpr 7 27 33"

definition typeExpr_J :: Expr where
  "typeExpr_J = OtherExpr 17 10 11"

definition typeExpr_J2 :: Expr where
  "typeExpr_J2 = OtherExpr 18 16 17"

definition info_first :: Info where
  "info_first = info_of
     [(3, TNamed named_W), (4, TNamed named_T), (7, TNamed named_W),
      (5, TSignature [TNamed named_J, TSlice (TNamed named_I)] True),
      (2, TNamed named_I), (11, TNamed named_I), (17, TNamed named_J), (18, TNamed named_J)]
     [(1, ''f'')]"

definition funcType_three :: FuncType where
  "funcType_three =
     \<lparr>FuncType_Params = Some \<lparr>FieldList_List = []\<rparr>,
      FuncType_Results = Some \<lparr>FieldList_List =
        [\<lparr>Field_Names = [], Field_Type = typeExpr_J\<rparr>,
         \<lparr>Field_Names = [], Field_Type = typeExpr_I\<rparr>,
         \<lparr>Field_Names = [], Field_Type = typeExpr_J2\<rparr>]\<rparr>\<rparr>"

definition ret_three :: ReturnStmt where
  "ret_three = \<lparr>ReturnStmt_Return = 13,
                 ReturnStmt_Results = [operand_T, operand_b, operand_late]\<rparr>"

definition spec_three :: ValueSpec where
  "spec_three = \<lparr>ValueSpec_Names = [12, 13, 14], ValueSpec_Type = Some typeExpr_I,
                  ValueSpec_Values = [operand_T, operand_b, operand_late]\<rparr>"

definition assign_three :: AssignStmt where
  "assign_three = \<lparr>AssignStmt_Lhs = [typeExpr_J, var_x, typeExpr_J2],
                    AssignStmt_Rhs = [operand_T, operand_b, operand_late]\<rparr>"

text \<open>
  The assignment \<^verbatim>\<open>x = h(g(T{}))\<close> with \<^verbatim>\<open>func h(y J) W\<close>,
  \<^verbatim>\<open>func g(x interface{ M() }) W\<close> and \<^verbatim>\<open>x\<close> of type \<^verbatim>\<open>I\<close>, and the assignment
  \<^verbatim>\<open>x = (g(T{}))\<close> with a parenthesized right-hand side.
\<close>

definition callee_h :: Expr where
  "callee_h = OtherExpr 13 16 17"

definition call_h :: Expr where
  "call_h = CallExpr 14 callee_h [call_g] 24"

definition paren_g :: Expr where
  "paren_g = OtherExpr 15 17 25"

definition info_nested :: Info where
  "info_nested = info_of
     [(3, TNamed named_T), (5, TSignature [TInterface [''M'']] False), (6, TNamed named_W),
      (13, TSignature [TNamed named_J] False), (14, TNamed named_W), (15, TNamed named_W),
      (11, TNamed named_I)] [(1, ''f'')]"

definition assign_h :: AssignStmt where
  "assign_h = \<lparr>AssignStmt_Lhs = [var_x], AssignStmt_Rhs = [call_h]\<rparr>"

definition assign_paren :: AssignStmt where
  "assign_paren = \<lparr>AssignStmt_Lhs = [var_x], AssignStmt_Rhs = [paren_g]\<rparr>"










section \<open>Properties of the resolution helpers\<close>

lemma ifaceObjFromType_Some:
  "ifaceObjFromType t = Some obj \<Longrightarrow> Pkg obj \<noteq> None \<or> Name obj = ''error''"
  by (auto simp: ifaceObjFromType_def split: gotype.splits if_splits)

lemma ifaceType_Some:
  "ifaceType e info = Some obj \<Longrightarrow> Pkg obj \<noteq> None \<or> Name obj = ''error''"
  by (auto simp: ifaceType_def split: option.splits dest: ifaceObjFromType_Some)

lemma fromCallExpr_Interface:
  "fromCallExpr fset info pos f args = Inr (Some si) \<Longrightarrow>
     Pkg (Interface si) \<noteq> None \<or> Name (Interface si) = ''error''"
  unfolding fromCallExpr_def
  by (auto split: option.splits prod.splits gotype.splits sum.splits dest: ifaceObjFromType_Some)

lemma fromReturnStmt_Interface:
  "fromReturnStmt fset info pos path ret = Inr (Some si, err) \<Longrightarrow>
     Pkg (Interface si) \<noteq> None \<or> Name (Interface si) = ''error''"
  unfolding fromReturnStmt_def
  by (auto split: option.splits prod.splits if_splits dest: ifaceType_Some)

lemma fromValueSpec_Interface:
  "fromValueSpec fset info spec pos = Some si \<Longrightarrow>
     Pkg (Interface si) \<noteq> None \<or> Name (Interface si) = ''error''"
  unfolding fromValueSpec_def
  by (auto split: option.splits prod.splits if_splits Expr.splits dest: ifaceType_Some)

lemma fromAssignStmt_Interface:
  "fromAssignStmt fset info assign pos = Some si \<Longrightarrow>
     Pkg (Interface si) \<noteq> None \<or> Name (Interface si) = ''error''"
  unfolding fromAssignStmt_def
  by (auto split: option.splits prod.splits if_splits dest: ifaceType_Some)

lemma GetStubInfo_loop_Interface:
  "GetStubInfo_loop fset info path pos ns = Inr (Some si) \<Longrightarrow>
     Pkg (Interface si) \<noteq> None \<or> Name (Interface si) = ''error''"
proof (induction fset info path pos ns rule: GetStubInfo_loop.induct)
  case (3 fset info path pos n ns)
  then show ?case
    by (auto split: sum.splits prod.splits dest: fromReturnStmt_Interface)
next
  case (5 fset info path pos n callFun callArgs rparen ns)
  then show ?case
    by (auto split: sum.splits option.splits dest: fromCallExpr_Interface)
qed (auto dest: fromValueSpec_Interface fromAssignStmt_Interface)

text \<open>
  Claim C3.  Interface-type resolution accepts a named interface without a declaring
  package exactly when its name is \<^verbatim>\<open>error\<close>, and rejects every other one; hence the
  \<^verbatim>\<open>Interface\<close> of every result that \<^verbatim>\<open>ifaceObjFromType\<close> or the dispatcher produces
  has a declaring package or is named \<^verbatim>\<open>error\<close>.
\<close>

theorem ifaceObjFromType_builtin_error:
  "(Unalias t = TNamed named \<and> IsInterface named \<and> Pkg (Obj named) = None \<longrightarrow>
      (ifaceObjFromType t = Some (Obj named)) = (Name (Obj named) = ''error'')
      \<and> (ifaceObjFromType t = None) = (Name (Obj named) \<noteq> ''error''))
   \<and> (ifaceObjFromType t = Some obj \<longrightarrow> Pkg obj \<noteq> None \<or> Name obj = ''error'')
   \<and> (GetStubInfo fset info path pos = Inr (Some si) \<longrightarrow>
        Pkg (Interface si) \<noteq> None \<or> Name (Interface si) = ''error'')"
proof (intro conjI impI)
  assume "ifaceObjFromType t = Some obj"
  then show "Pkg obj \<noteq> None \<or> Name obj = ''error''"
    by (rule ifaceObjFromType_Some)
next
  assume "GetStubInfo fset info path pos = Inr (Some si)"
  then show "Pkg (Interface si) \<noteq> None \<or> Name (Interface si) = ''error''"
    unfolding GetStubInfo_def by (rule GetStubInfo_loop_Interface)
qed (auto simp: ifaceObjFromType_def)

theorem ifaceObjFromType_builtin_error_witness:
  "ifaceObjFromType (TNamed named_error) = Some (Obj named_error)
   \<and> ifaceObjFromType (TNamed named_comparable) = None
   \<and> ifaceObjFromType (TNamed named_I) = Some \<lparr>Pkg = Some ''p'', Name = ''I''\<rparr>
   \<and> GetStubInfo 0 info_error [ExprNode operand_T, ValueSpecNode spec_typed] 20
       = Inr (Some (stub (Obj named_error) named_T False))
   \<and> Name (Interface (stub (Obj named_error) named_T False)) = ''error''"
proof -
  have e: "Unalias (TNamed named_error) = TNamed named_error \<and> IsInterface named_error
             \<and> Pkg (Obj named_error) = None"
    by (simp add: named_error_def IsInterface_def)
  have c: "Unalias (TNamed named_comparable) = TNamed named_comparable
             \<and> IsInterface named_comparable \<and> Pkg (Obj named_comparable) = None"
    by (simp add: named_comparable_def IsInterface_def)
  have "ifaceObjFromType (TNamed named_error) = Some (Obj named_error)"
    using e ifaceObjFromType_builtin_error [of "TNamed named_error" named_error]
    by (simp add: named_error_def)
  moreover have "ifaceObjFromType (TNamed named_comparable) = None"
    using c ifaceObjFromType_builtin_error [of "TNamed named_comparable" named_comparable]
    by (simp add: named_comparable_def)
  moreover have "ifaceObjFromType (TNamed named_I) = Some \<lparr>Pkg = Some ''p'', Name = ''I''\<rparr>"
    by (simp add: ifaceObjFromType_def named_I_def IsInterface_def)
  moreover have g: "GetStubInfo 0 info_error [ExprNode operand_T, ValueSpecNode spec_typed] 20
       = Inr (Some (stub (Obj named_error) named_T False))"
    by (simp add: named_T_def named_error_def operand_T_def typeExpr_I_def stub_def info_of_def
          info_error_def spec_typed_def GetStubInfo_def fromValueSpec_def concreteWithPkg_def
          concreteType_def ifaceType_def ifaceObjFromType_def IsInterface_def)
  moreover have "Name (Interface (stub (Obj named_error) named_T False)) = ''error''"
    using g ifaceObjFromType_builtin_error [of _ _ _ 0 info_error
        "[ExprNode operand_T, ValueSpecNode spec_typed]" 20
        "stub (Obj named_error) named_T False"]
    by (simp add: stub_def named_error_def)
  ultimately show ?thesis by simp
qed

text \<open>
  Claim C5.  Concrete-type resolution unwraps exactly one pointer: a recorded type
  that is (up to aliases) a pointer to a named type gives that type with
  \<^verbatim>\<open>Pointer = true\<close>, a named type gives it with \<^verbatim>\<open>Pointer = false\<close>, and a
  pointer to a pointer gives no named type.
\<close>

theorem concreteType_one_pointer_level:
  assumes "Types info (ExprId e) = Some t"
  shows "(Unalias t = TPointer u \<and> Unalias u = TNamed named
            \<longrightarrow> concreteType e info = (Some named, True))
       \<and> (Unalias t = TNamed named \<longrightarrow> concreteType e info = (Some named, False))
       \<and> (Unalias t = TPointer u \<and> Unalias u = TPointer w
            \<longrightarrow> concreteType e info = (None, False))"
  using assms by (simp add: concreteType_def)

theorem concreteType_one_pointer_level_witness:
  "concreteType operand_T (info_of [(3, TPointer alias_TA)] []) = (Some named_T, True)
   \<and> concreteType operand_T (info_of [(3, TNamed named_T)] []) = (Some named_T, False)
   \<and> concreteType operand_T (info_of [(3, TPointer (TPointer (TNamed named_T)))] [])
       = (None, False)"
  using concreteType_one_pointer_level
          [of "info_of [(3, TPointer alias_TA)] []" operand_T "TPointer alias_TA"
              alias_TA named_T]
        concreteType_one_pointer_level
          [of "info_of [(3, TNamed named_T)] []" operand_T "TNamed named_T" _ named_T]
        concreteType_one_pointer_level
          [of "info_of [(3, TPointer (TPointer (TNamed named_T)))] []" operand_T
              "TPointer (TPointer (TNamed named_T))" "TPointer (TNamed named_T)" _
              "TNamed named_T"]
  by (simp add: info_of_def operand_T_def alias_TA_def)

section \<open>The operand loop\<close>

lemma findOperand_first:
  "i < length xs \<Longrightarrow> ExprPos (xs ! i) \<le> pos \<and> pos \<le> ExprEnd (xs ! i) \<Longrightarrow>
   \<forall>j<i. \<not> (ExprPos (xs ! j) \<le> pos \<and> pos \<le> ExprEnd (xs ! j)) \<Longrightarrow>
   findOperand pos k xs = Some (k + i, xs ! i)"
proof (induction xs arbitrary: i k)
  case Nil
  then show ?case by simp
next
  case (Cons x xs)
  show ?case
  proof (cases i)
    case 0
    with Cons.prems show ?thesis by simp
  next
    case (Suc i')
    from Cons.prems(3) Suc have nx: "\<not> (ExprPos x \<le> pos \<and> pos \<le> ExprEnd x)"
      by (metis nth_Cons_0 zero_less_Suc)
    have "\<forall>j<i'. \<not> (ExprPos (xs ! j) \<le> pos \<and> pos \<le> ExprEnd (xs ! j))"
      using Cons.prems(3) Suc by (metis Suc_mono nth_Cons_Suc)
    with Cons.IH [of i' "Suc k"] Cons.prems Suc
    have "findOperand pos (Suc k) xs = Some (Suc k + i', xs ! i')" by simp
    with nx Suc show ?thesis by simp
  qed
qed

lemma findOperand_Some:
  "findOperand pos k xs = Some (n, r) \<Longrightarrow>
     \<exists>i<length xs. n = k + i \<and> r = xs ! i \<and> ExprPos r \<le> pos \<and> pos \<le> ExprEnd r
       \<and> (\<forall>j<i. \<not> (ExprPos (xs ! j) \<le> pos \<and> pos \<le> ExprEnd (xs ! j)))"
proof (induction xs arbitrary: k)
  case Nil
  then show ?case by simp
next
  case (Cons x xs)
  show ?case
  proof (cases "ExprPos x \<le> pos \<and> pos \<le> ExprEnd x")
    case True
    with Cons.prems show ?thesis by auto
  next
    case False
    with Cons.prems have "findOperand pos (Suc k) xs = Some (n, r)" by simp
    from Cons.IH [OF this] obtain i where i: "i < length xs" "n = Suc k + i" "r = xs ! i"
      "ExprPos r \<le> pos" "pos \<le> ExprEnd r"
      "\<forall>j<i. \<not> (ExprPos (xs ! j) \<le> pos \<and> pos \<le> ExprEnd (xs ! j))" by blast
    have "\<forall>j<Suc i. \<not> (ExprPos ((x # xs) ! j) \<le> pos \<and> pos \<le> ExprEnd ((x # xs) ! j))"
      using False i(6) by (auto simp: less_Suc_eq_0_disj)
    with i show ?thesis
      by (intro exI [of _ "Suc i"]) simp
  qed
qed

lemma findOperand_None:
  "(findOperand pos k xs = None) =
     (\<forall>r \<in> set xs. \<not> (ExprPos r \<le> pos \<and> pos \<le> ExprEnd r))"
  by (induction xs arbitrary: k) auto

lemma findOperand_prefix:
  assumes "i < length xs" "ExprPos (xs ! i) \<le> pos \<and> pos \<le> ExprEnd (xs ! i)"
    "\<forall>j<i. \<not> (ExprPos (xs ! j) \<le> pos \<and> pos \<le> ExprEnd (xs ! j))"
    "take (Suc i) ys = take (Suc i) xs"
  shows "findOperand pos k ys = Some (k + i, xs ! i)"
proof -
  have len: "i < length ys"
  proof (rule ccontr)
    assume "\<not> i < length ys"
    then have "length (take (Suc i) ys) \<le> i" by simp
    moreover have "length (take (Suc i) xs) = Suc i" using assms(1) by simp
    ultimately show False using assms(4) by simp
  qed
  have nth: "ys ! j = xs ! j" if "j \<le> i" for j
    using that assms(4) by (metis less_Suc_eq_le nth_take)
  have "findOperand pos k ys = Some (k + i, ys ! i)"
    using len assms(2,3) nth by (intro findOperand_first) auto
  then show ?thesis using nth by simp
qed

text \<open>
  Claim C10.  In each of the four analyzers the operand matched against the position is
  the one at the least index whose span contains the position (inclusive at both
  ends): the analyzer returns what its body after the loop gives for that operand and
  that index, and the expressions after it are ignored, whether or not their spans
  contain the position.
\<close>

theorem analyzers_select_first_operand:
  assumes "i < length xs"
    and "ExprPos (xs ! i) \<le> pos \<and> pos \<le> ExprEnd (xs ! i)"
    and "\<forall>j<i. \<not> (ExprPos (xs ! j) \<le> pos \<and> pos \<le> ExprEnd (xs ! j))"
    and "length ys = length xs"
    and "take (Suc i) ys = take (Suc i) xs"
  shows
    "fromCallExpr fset info pos f xs = fromCallExpr_at fset info f i (xs ! i)
     \<and> fromReturnStmt fset info pos path (ret\<lparr>ReturnStmt_Results := xs\<rparr>)
         = fromReturnStmt_at fset info path (length xs) i (xs ! i)
     \<and> fromValueSpec fset info (spec\<lparr>ValueSpec_Values := xs\<rparr>) pos
         = fromValueSpec_at fset info (ValueSpec_Type spec) (xs ! i)
     \<and> fromAssignStmt fset info (assign\<lparr>AssignStmt_Rhs := xs\<rparr>) pos
         = fromAssignStmt_at fset info (AssignStmt_Lhs assign) i (xs ! i)
     \<and> fromCallExpr fset info pos f ys = fromCallExpr fset info pos f xs
     \<and> fromReturnStmt fset info pos path (ret\<lparr>ReturnStmt_Results := ys\<rparr>)
         = fromReturnStmt fset info pos path (ret\<lparr>ReturnStmt_Results := xs\<rparr>)
     \<and> fromValueSpec fset info (spec\<lparr>ValueSpec_Values := ys\<rparr>) pos
         = fromValueSpec fset info (spec\<lparr>ValueSpec_Values := xs\<rparr>) pos
     \<and> fromAssignStmt fset info (assign\<lparr>AssignStmt_Rhs := ys\<rparr>) pos
         = fromAssignStmt fset info (assign\<lparr>AssignStmt_Rhs := xs\<rparr>) pos"
proof -
  have fx: "findOperand pos 0 xs = Some (i, xs ! i)"
    using findOperand_first [OF assms(1,2,3), of 0] by simp
  have fy: "findOperand pos 0 ys = Some (i, xs ! i)"
    using findOperand_prefix [OF assms(1,2,3,5), of 0] by simp
  have a1: "fromCallExpr fset info pos f xs = fromCallExpr_at fset info f i (xs ! i)"
    by (simp add: fromCallExpr_def fromCallExpr_at_def fx)
  have a2: "fromReturnStmt fset info pos path (ret\<lparr>ReturnStmt_Results := xs\<rparr>)
         = fromReturnStmt_at fset info path (length xs) i (xs ! i)"
    by (simp add: fromReturnStmt_def fromReturnStmt_at_def fx cong: option.case_cong if_cong)
  have a3: "fromValueSpec fset info (spec\<lparr>ValueSpec_Values := xs\<rparr>) pos
         = fromValueSpec_at fset info (ValueSpec_Type spec) (xs ! i)"
    by (simp add: fromValueSpec_def fromValueSpec_at_def fx cong: Expr.case_cong if_cong)
  have a4: "fromAssignStmt fset info (assign\<lparr>AssignStmt_Rhs := xs\<rparr>) pos
         = fromAssignStmt_at fset info (AssignStmt_Lhs assign) i (xs ! i)"
    by (simp add: fromAssignStmt_def fromAssignStmt_at_def fx cong: option.case_cong if_cong)
  have c1: "fromCallExpr fset info pos f ys = fromCallExpr fset info pos f xs"
    by (simp add: fromCallExpr_def fx fy)
  have c2: "fromReturnStmt fset info pos path (ret\<lparr>ReturnStmt_Results := ys\<rparr>)
         = fromReturnStmt fset info pos path (ret\<lparr>ReturnStmt_Results := xs\<rparr>)"
    by (simp add: fromReturnStmt_def fx fy assms(4) cong: option.case_cong if_cong)
  have c3: "fromValueSpec fset info (spec\<lparr>ValueSpec_Values := ys\<rparr>) pos
         = fromValueSpec fset info (spec\<lparr>ValueSpec_Values := xs\<rparr>) pos"
    by (simp add: fromValueSpec_def fx fy cong: Expr.case_cong if_cong)
  have c4: "fromAssignStmt fset info (assign\<lparr>AssignStmt_Rhs := ys\<rparr>) pos
         = fromAssignStmt fset info (assign\<lparr>AssignStmt_Rhs := xs\<rparr>) pos"
    by (simp add: fromAssignStmt_def fx fy cong: option.case_cong if_cong)
  from a1 a2 a3 a4 c1 c2 c3 c4 show ?thesis by blast
qed

theorem analyzers_select_first_operand_witness:
  "fromCallExpr 0 info_first 27 callee_g [operand_T, operand_b, operand_late]
     = Inr (Some (stub (Obj named_I) named_T False))
   \<and> fromReturnStmt 0 info_first 27 (path_in ret_three funcType_three) ret_three
     = Inr (Some (stub (Obj named_I) named_T False), None)
   \<and> fromValueSpec 0 info_first spec_three 27 = Some (stub (Obj named_I) named_T False)
   \<and> fromAssignStmt 0 info_first assign_three 27 = Some (stub (Obj named_I) named_T False)
   \<and> fromAssignStmt 0 info_first
        (assign_three\<lparr>AssignStmt_Rhs := [operand_T, operand_b, operand_c]\<rparr>) 27
     = fromAssignStmt 0 info_first assign_three 27
   \<and> ExprPos operand_late \<le> 27 \<and> 27 \<le> ExprEnd operand_late"
proof -
  have h1: "1 < length [operand_T, operand_b, operand_late]" by simp
  have h2: "ExprPos ([operand_T, operand_b, operand_late] ! 1) \<le> 27
              \<and> 27 \<le> ExprEnd ([operand_T, operand_b, operand_late] ! 1)"
    by (simp add: operand_b_def)
  have h3: "\<forall>j<1. \<not> (ExprPos ([operand_T, operand_b, operand_late] ! j) \<le> 27
              \<and> 27 \<le> ExprEnd ([operand_T, operand_b, operand_late] ! j))"
    by (simp add: operand_T_def)
  have h4: "length [operand_T, operand_b, operand_c] = length [operand_T, operand_b, operand_late]"
    by simp
  have h5: "take (Suc 1) [operand_T, operand_b, operand_c]
              = take (Suc 1) [operand_T, operand_b, operand_late]"
    by simp
  have late: "ExprPos operand_late \<le> 27 \<and> 27 \<le> ExprEnd operand_late"
    by (simp add: operand_late_def)
  have e1: "fromCallExpr_at 0 info_first callee_g 1 operand_b
              = Inr (Some (stub (Obj named_I) named_T False))"
    by (simp add: fromCallExpr_at_def concreteWithPkg_def concreteType_def ifaceObjFromType_def
          IsInterface_def paramType_def At_def info_first_def info_of_def operand_b_def
          callee_g_def named_T_def named_I_def stub_def)
  have e2: "fromReturnStmt_at 0 info_first (path_in ret_three funcType_three)
              (length [operand_T, operand_b, operand_late]) 1 operand_b
              = Inr (Some (stub (Obj named_I) named_T False), None)"
    by (simp add: fromReturnStmt_at_def concreteWithPkg_def concreteType_def ifaceType_def
          ifaceObjFromType_def IsInterface_def info_first_def info_of_def operand_b_def
          path_in_def funcType_three_def typeExpr_I_def named_T_def named_I_def stub_def)
  have e3: "fromValueSpec_at 0 info_first (Some typeExpr_I) operand_b
              = Some (stub (Obj named_I) named_T False)"
    by (simp add: fromValueSpec_at_def concreteWithPkg_def concreteType_def ifaceType_def
          ifaceObjFromType_def IsInterface_def info_first_def info_of_def operand_b_def
          typeExpr_I_def named_T_def named_I_def stub_def)
  have e4: "fromAssignStmt_at 0 info_first [typeExpr_J, var_x, typeExpr_J2] 1 operand_b
              = Some (stub (Obj named_I) named_T False)"
    by (simp add: fromAssignStmt_at_def concreteWithPkg_def concreteType_def ifaceType_def
          ifaceObjFromType_def IsInterface_def info_first_def info_of_def operand_b_def
          var_x_def named_T_def named_I_def stub_def)
  from analyzers_select_first_operand [OF h1 h2 h3 h4 h5, of 0 info_first callee_g
      "path_in ret_three funcType_three" ret_three spec_three assign_three]
    e1 e2 e3 e4 late
  show ?thesis
    by (simp add: ret_three_def spec_three_def assign_three_def)
qed

section \<open>The dispatcher\<close>

lemma GetStubInfo_loop_passedOver:
  "list_all (passedOver fset info pos) pre \<Longrightarrow>
     GetStubInfo_loop fset info path pos (pre @ ns) = GetStubInfo_loop fset info path pos ns"
proof (induction pre)
  case Nil
  then show ?case by simp
next
  case (Cons n pre)
  then show ?case
    by (cases "(fset, info, pos, n)" rule: passedOver.cases) auto
qed

text \<open>
  Claim C2, as stated, lets the assignment decide for every path in which a failing
  call is nested inside an assignment that resolves.  In \<^verbatim>\<open>x = h(g(T{}))\<close>, queried
  at \<^verbatim>\<open>T{}\<close>, the call of \<^verbatim>\<open>g\<close> fails (its parameter is an interface literal) and the
  assignment would give \<^verbatim>\<open>I\<close> and \<^verbatim>\<open>W\<close>; the dispatcher reaches the call of \<^verbatim>\<open>h\<close>
  first, which resolves, and returns \<^verbatim>\<open>J\<close> and \<^verbatim>\<open>W\<close>.
\<close>

theorem GetStubInfo_nested_call_counterexample:
  "fromCallExpr 0 info_nested 20 callee_g [operand_T] = Inr None
   \<and> fromAssignStmt 0 info_nested assign_h 20 = Some (stub (Obj named_I) named_W False)
   \<and> GetStubInfo 0 info_nested
        [ExprNode operand_T, ExprNode call_g, ExprNode call_h, AssignStmtNode assign_h, OtherNode] 20
       = Inr (Some (stub (Obj named_J) named_W False))
   \<and> stub (Obj named_J) named_W False \<noteq> stub (Obj named_I) named_W False"
  by (simp add: named_T_def named_W_def named_I_def named_J_def operand_T_def callee_g_def
        call_g_def callee_h_def call_h_def var_x_def stub_def info_of_def info_nested_def
        assign_h_def GetStubInfo_def fromCallExpr_def fromAssignStmt_def concreteWithPkg_def
        concreteType_def ifaceType_def ifaceObjFromType_def IsInterface_def paramType_def At_def)

text \<open>
  Claim C2, amended.  The dispatcher walks the path from the innermost node outward.
  After nodes that it passes over (nodes of no shape, and call expressions whose
  analysis returns nil), the first declaration, assignment or return statement
  decides: the dispatcher returns that analyzer's result, found or not, and never looks
  at the rest of the path.  A call expression decides when its analysis finds a
  result.  Hence for every path in which a failing call expression is nested inside
  an assignment, with only passed-over nodes before the call and between the call and
  the assignment (no declaration, return statement, other assignment or resolving
  call), the dispatcher returns the assignment's result.  A path of passed-over nodes
  alone gives nil.
\<close>

theorem GetStubInfo_precedence:
  assumes "list_all (passedOver fset info pos) pre"
    and "list_all (passedOver fset info pos) mid"
  shows "GetStubInfo fset info (pre @ ValueSpecNode spec # rest) pos
           = Inr (fromValueSpec fset info spec pos)
       \<and> GetStubInfo fset info (pre @ AssignStmtNode assign # rest) pos
           = Inr (fromAssignStmt fset info assign pos)
       \<and> GetStubInfo fset info (pre @ ReturnStmtNode ret # rest) pos
           = (case fromReturnStmt fset info pos (pre @ ReturnStmtNode ret # rest) ret of
                Inl p \<Rightarrow> Inl p
              | Inr (si, err) \<Rightarrow> Inr si)
       \<and> (fromCallExpr fset info pos callFun callArgs = Inr (Some si) \<longrightarrow>
            GetStubInfo fset info (pre @ ExprNode (CallExpr n callFun callArgs rparen) # rest) pos
              = Inr (Some si))
       \<and> (fromCallExpr fset info pos callFun callArgs = Inr None \<longrightarrow>
            GetStubInfo fset info
              (pre @ ExprNode (CallExpr n callFun callArgs rparen) # mid
                 @ AssignStmtNode assign # rest) pos
              = Inr (fromAssignStmt fset info assign pos))
       \<and> GetStubInfo fset info pre pos = Inr None"
proof -
  note pre = GetStubInfo_loop_passedOver [OF assms(1)]
  note mid = GetStubInfo_loop_passedOver [OF assms(2)]
  have n: "GetStubInfo fset info pre pos = Inr None"
    using pre [of _ "[]"] by (simp add: GetStubInfo_def)
  have f: "fromCallExpr fset info pos callFun callArgs = Inr None \<longrightarrow>
            GetStubInfo fset info
              (pre @ ExprNode (CallExpr n callFun callArgs rparen) # mid
                 @ AssignStmtNode assign # rest) pos
              = Inr (fromAssignStmt fset info assign pos)"
    by (simp add: GetStubInfo_def pre mid)
  show ?thesis
    using n f by (auto simp: GetStubInfo_def pre split: sum.splits option.splits)
qed

theorem GetStubInfo_precedence_witness:
  "GetStubInfo 0 info_nested
     ([ExprNode operand_T] @ ExprNode (CallExpr 6 callee_g [operand_T] 23)
        # [ExprNode paren_g] @ AssignStmtNode assign_paren # [OtherNode]) 20
     = Inr (Some (stub (Obj named_I) named_W False))
   \<and> fromCallExpr 0 info_nested 20 callee_g [operand_T] = Inr None"
proof -
  have c: "fromCallExpr 0 info_nested 20 callee_g [operand_T] = Inr None"
    by (simp add: named_T_def named_W_def named_I_def named_J_def operand_T_def callee_g_def
          info_of_def info_nested_def fromCallExpr_def concreteWithPkg_def concreteType_def
          ifaceObjFromType_def IsInterface_def paramType_def At_def)
  have a: "fromAssignStmt 0 info_nested assign_paren 20
             = Some (stub (Obj named_I) named_W False)"
    by (simp add: named_T_def named_W_def named_I_def named_J_def paren_g_def var_x_def
          stub_def info_of_def info_nested_def assign_paren_def fromAssignStmt_def
          concreteWithPkg_def concreteType_def ifaceType_def ifaceObjFromType_def IsInterface_def)
  have p: "list_all (passedOver 0 info_nested 20) [ExprNode operand_T]"
    by (simp add: operand_T_def)
  have m: "list_all (passedOver 0 info_nested 20) [ExprNode paren_g]"
    by (simp add: paren_g_def)
  from GetStubInfo_precedence [OF p m, where callFun = callee_g and callArgs = "[operand_T]"
      and n = 6 and rparen = 23 and assign = assign_paren and rest = "[OtherNode]"]
    c a
  show ?thesis by simp
qed

section \<open>The declaration analyzer\<close>

text \<open>
  Claim C7.  For a position inside the operand \<open>v\<close>, the declaration analyzer gives
  the same result for the conversion form \<^verbatim>\<open>var _ = I(v)\<close> (no declared type, one
  initializer that is a call with the single argument \<open>v\<close> and callee \<open>I\<close>) as for the
  typed form \<^verbatim>\<open>var _ I = v\<close>.  The span of the call, which runs from the start of
  its callee to one past its closing parenthesis, contains the position as well.
\<close>

theorem fromValueSpec_conversion_form:
  assumes "ExprPos v \<le> pos \<and> pos \<le> ExprEnd v"
    and "ExprPos iface \<le> pos \<and> pos \<le> rparen + 1"
  shows "fromValueSpec fset info
           \<lparr>ValueSpec_Names = names, ValueSpec_Type = None,
            ValueSpec_Values = [CallExpr n iface [v] rparen]\<rparr> pos
         = fromValueSpec fset info
           \<lparr>ValueSpec_Names = names, ValueSpec_Type = Some iface, ValueSpec_Values = [v]\<rparr> pos"
  using assms by (cases v) (simp_all add: fromValueSpec_def)

theorem fromValueSpec_conversion_form_witness:
  "fromValueSpec 0 info_decl
     \<lparr>ValueSpec_Names = [12], ValueSpec_Type = None,
      ValueSpec_Values = [CallExpr 6 typeExpr_I [operand_T] 23]\<rparr> 20
     = Some (stub (Obj named_I) named_T True)
   \<and> fromValueSpec 0 info_decl spec_typed 20 = Some (stub (Obj named_I) named_T True)"
proof -
  have t: "fromValueSpec 0 info_decl spec_typed 20 = Some (stub (Obj named_I) named_T True)"
    by (simp add: named_T_def named_I_def operand_T_def typeExpr_I_def stub_def info_of_def
          info_decl_def spec_typed_def fromValueSpec_def concreteWithPkg_def concreteType_def
          ifaceType_def ifaceObjFromType_def IsInterface_def)
  have h1: "ExprPos operand_T \<le> 20 \<and> 20 \<le> ExprEnd operand_T"
    by (simp add: operand_T_def)
  have h2: "ExprPos typeExpr_I \<le> 20 \<and> 20 \<le> (23::int) + 1"
    by (simp add: typeExpr_I_def)
  from fromValueSpec_conversion_form [OF h1 h2, of 0 info_decl "[12]" 6] t
  show ?thesis by (simp add: spec_typed_def)
qed

section \<open>The call analyzer\<close>

text \<open>
  Claim C6, as stated, puts the boundary at the last fixed parameter.  For
  \<^verbatim>\<open>func g(x J, ys ...I)\<close> and the call \<^verbatim>\<open>g(T{}, b, c)\<close>, the argument \<^verbatim>\<open>T{}\<close> has
  index 0, the index of the last fixed parameter \<^verbatim>\<open>x\<close>; the analyzer matches it
  against the fixed parameter type \<^verbatim>\<open>J\<close>, not against the element type \<^verbatim>\<open>I\<close> of the
  variadic parameter.
\<close>

theorem fromCallExpr_last_fixed_parameter_counterexample:
  "fromCallExpr 0 info_variadic 20 callee_g [operand_T, operand_b, operand_c]
     = Inr (Some (stub (Obj named_J) named_T False))
   \<and> fromCallExpr 0 info_variadic 20 callee_g [operand_T, operand_b, operand_c]
     \<noteq> Inr (Some (stub (Obj named_I) named_T False))"
  by (simp add: named_T_def named_I_def named_J_def operand_T_def operand_b_def
        operand_c_def callee_g_def stub_def info_of_def info_variadic_def fromCallExpr_def
        concreteWithPkg_def concreteType_def ifaceObjFromType_def IsInterface_def paramType_def
        At_def)

text \<open>
  Claim C6, amended.  For a call whose callee has a variadic signature, an argument
  whose index is at or past the index of the variadic parameter (the number of fixed
  parameters) is matched against the element type of the variadic slice parameter,
  and an argument at a smaller index, the last fixed parameter included, is matched
  against the fixed parameter type at that index; if the signature is not variadic and
  the argument index is out of range, the call analyzer fails.
\<close>

theorem fromCallExpr_parameter_alignment:
  assumes "findOperand pos 0 callArgs = Some (argIdx, arg)"
    and "concreteWithPkg arg info = Some (concType, pointer)"
    and "Types info (ExprId callFun) = Some tv"
    and "Unalias tv = TSignature params variadic"
  shows "(variadic \<and> params \<noteq> [] \<and> argIdx \<ge> length params - 1 \<and> last params = TSlice elem \<longrightarrow>
           fromCallExpr fset info pos callFun callArgs =
             (case ifaceObjFromType elem of
                None \<Rightarrow> Inr None
              | Some iface \<Rightarrow> Inr (Some \<lparr>Fset = fset, Interface = iface,
                                         Concrete = concType, Pointer = pointer\<rparr>)))
       \<and> (variadic \<and> argIdx < length params - 1 \<longrightarrow>
           fromCallExpr fset info pos callFun callArgs =
             (case ifaceObjFromType (params ! argIdx) of
                None \<Rightarrow> Inr None
              | Some iface \<Rightarrow> Inr (Some \<lparr>Fset = fset, Interface = iface,
                                         Concrete = concType, Pointer = pointer\<rparr>)))
       \<and> (\<not> variadic \<and> argIdx \<ge> length params \<longrightarrow>
           fromCallExpr fset info pos callFun callArgs = Inr None)"
proof (intro conjI impI)
  assume v: "variadic \<and> params \<noteq> [] \<and> argIdx \<ge> length params - 1 \<and> last params = TSlice elem"
  then have "int (length params) - 1 \<le> int argIdx" by linarith
  moreover have "At params (int (length params) - 1) = Inr (TSlice elem)"
    using v by (cases params rule: rev_cases) (auto simp: At_def nth_append)
  ultimately have "paramType params variadic argIdx = Inr (Some elem)"
    using v by (simp add: paramType_def)
  then show "fromCallExpr fset info pos callFun callArgs =
             (case ifaceObjFromType elem of
                None \<Rightarrow> Inr None
              | Some iface \<Rightarrow> Inr (Some \<lparr>Fset = fset, Interface = iface,
                                         Concrete = concType, Pointer = pointer\<rparr>))"
    using assms by (simp add: fromCallExpr_def split: option.splits)
next
  assume v: "variadic \<and> argIdx < length params - 1"
  then have "\<not> int (length params) - 1 \<le> int argIdx" "argIdx < length params" by linarith+
  then have "paramType params variadic argIdx = Inr (Some (params ! argIdx))"
    by (simp add: paramType_def At_def)
  then show "fromCallExpr fset info pos callFun callArgs =
             (case ifaceObjFromType (params ! argIdx) of
                None \<Rightarrow> Inr None
              | Some iface \<Rightarrow> Inr (Some \<lparr>Fset = fset, Interface = iface,
                                         Concrete = concType, Pointer = pointer\<rparr>))"
    using assms by (simp add: fromCallExpr_def split: option.splits)
next
  assume "\<not> variadic \<and> argIdx \<ge> length params"
  then have "paramType params variadic argIdx = Inr None"
    by (simp add: paramType_def)
  then show "fromCallExpr fset info pos callFun callArgs = Inr None"
    using assms by (simp add: fromCallExpr_def)
qed

theorem fromCallExpr_parameter_alignment_witness:
  "fromCallExpr 0 info_variadic 25 callee_g [operand_T, operand_b, operand_c]
     = Inr (Some (stub (Obj named_I) named_T False))
   \<and> fromCallExpr 0 info_variadic 20 callee_g [operand_T, operand_b, operand_c]
     = Inr (Some (stub (Obj named_J) named_T False))
   \<and> fromCallExpr 0 info_fixed 25 callee_g [operand_T, operand_b, operand_c] = Inr None"
proof -
  have sv: "Types info_variadic (ExprId callee_g)
              = Some (TSignature [TNamed named_J, TSlice (TNamed named_I)] True)"
    by (simp add: named_T_def named_I_def named_J_def callee_g_def info_of_def
          info_variadic_def)
  have sf: "Types info_fixed (ExprId callee_g) = Some (TSignature [TNamed named_J] False)"
    by (simp add: named_T_def named_J_def callee_g_def info_of_def info_fixed_def)
  have b: "findOperand 25 0 [operand_T, operand_b, operand_c] = Some (1, operand_b)"
    by (simp add: operand_T_def operand_b_def operand_c_def)
  have a: "findOperand 20 0 [operand_T, operand_b, operand_c] = Some (0, operand_T)"
    by (simp add: operand_T_def operand_b_def operand_c_def)
  have cb: "concreteWithPkg operand_b info_variadic = Some (named_T, False)"
    by (simp add: named_T_def named_I_def named_J_def operand_b_def info_of_def
          info_variadic_def concreteWithPkg_def concreteType_def)
  have ca: "concreteWithPkg operand_T info_variadic = Some (named_T, False)"
    by (simp add: named_T_def named_I_def named_J_def operand_T_def info_of_def
          info_variadic_def concreteWithPkg_def concreteType_def)
  have cf: "concreteWithPkg operand_b info_fixed = Some (named_T, False)"
    by (simp add: named_T_def named_J_def operand_b_def info_of_def info_fixed_def
          concreteWithPkg_def concreteType_def)
  have iI: "ifaceObjFromType (TNamed named_I) = Some (Obj named_I)"
    by (simp add: ifaceObjFromType_def IsInterface_def named_I_def)
  have iJ: "ifaceObjFromType (TNamed named_J) = Some (Obj named_J)"
    by (simp add: ifaceObjFromType_def IsInterface_def named_J_def)
  have "fromCallExpr 0 info_variadic 25 callee_g [operand_T, operand_b, operand_c]
     = Inr (Some (stub (Obj named_I) named_T False))"
    using fromCallExpr_parameter_alignment [OF b cb sv, of "[TNamed named_J, TSlice (TNamed named_I)]"
        True "TNamed named_I" 0] iI
    by (simp add: stub_def)
  moreover have "fromCallExpr 0 info_variadic 20 callee_g [operand_T, operand_b, operand_c]
     = Inr (Some (stub (Obj named_J) named_T False))"
    using fromCallExpr_parameter_alignment [OF a ca sv, of "[TNamed named_J, TSlice (TNamed named_I)]"
        True _ 0] iJ
    by (simp add: stub_def)
  moreover have "fromCallExpr 0 info_fixed 25 callee_g [operand_T, operand_b, operand_c] = Inr None"
    using fromCallExpr_parameter_alignment [OF b cf sf, of "[TNamed named_J]" False _ 0]
    by simp
  ultimately show ?thesis by simp
qed

section \<open>The return analyzer\<close>

text \<open>
  Claim C8, as stated, makes a length mismatch between the declared result list and
  the operand list an explicit error on its own.  In
  \<^verbatim>\<open>func f() (I, error) { return g() }\<close> the lengths are 2 and 1, the operand's type
  is a tuple and not a named type, and the analyzer returns neither a result nor an
  error: the operand's concrete type is resolved before the lengths are compared.
\<close>

theorem fromReturnStmt_mismatch_silent_counterexample:
  "fromReturnStmt 0 info_return 18 (path_in ret_spread funcType_two) ret_spread
     = Inr (None, None)
   \<and> enclosingFunction (path_in ret_spread funcType_two) info_return = Some funcType_two
   \<and> map_option (length \<circ> FieldList_List) (FuncType_Results funcType_two) = Some 2
   \<and> length (ReturnStmt_Results ret_spread) = 1"
  by (simp add: named_T_def named_I_def named_error_def callee_g_def typeExpr_I_def
        call_g_spread_def info_of_def info_return_def funcType_two_def ret_spread_def path_in_def
        fromReturnStmt_def concreteWithPkg_def concreteType_def ifaceType_def ifaceObjFromType_def
        IsInterface_def)

text \<open>
  Claim C8, amended.  When the enclosing function found on the path, if any, has a
  result list, \<^verbatim>\<open>fromReturnStmt\<close> returns an explicit error if and only if no return
  operand's span contains the position, or the operand's concrete type resolves and
  either no enclosing function with recorded type information is on the path or the
  declared result list of the enclosing function has a different length than the
  operand list.  When the operand's concrete type does not resolve, and when all
  these checks pass and the declared result's interface does not resolve, it returns
  no result and no error.
\<close>

theorem fromReturnStmt_explicit_error:
  assumes "\<And>funcType. enclosingFunction path info = Some funcType \<Longrightarrow>
             FuncType_Results funcType \<noteq> None"
  shows "((\<exists>si e. fromReturnStmt fset info pos path ret = Inr (si, Some e)) =
           (findOperand pos 0 (ReturnStmt_Results ret) = None
            \<or> (\<exists>i r c. findOperand pos 0 (ReturnStmt_Results ret) = Some (i, r)
                 \<and> concreteWithPkg r info = Some c
                 \<and> (enclosingFunction path info = None
                    \<or> (\<exists>funcType results. enclosingFunction path info = Some funcType
                          \<and> FuncType_Results funcType = Some results
                          \<and> length (FieldList_List results) \<noteq> length (ReturnStmt_Results ret))))))
       \<and> (\<forall>i r. findOperand pos 0 (ReturnStmt_Results ret) = Some (i, r)
             \<and> concreteWithPkg r info = None \<longrightarrow>
             fromReturnStmt fset info pos path ret = Inr (None, None))
       \<and> (\<forall>i r c funcType results.
             findOperand pos 0 (ReturnStmt_Results ret) = Some (i, r)
             \<and> concreteWithPkg r info = Some c
             \<and> enclosingFunction path info = Some funcType
             \<and> FuncType_Results funcType = Some results
             \<and> length (FieldList_List results) = length (ReturnStmt_Results ret)
             \<and> ifaceType (Some (Field_Type (FieldList_List results ! i))) info = None \<longrightarrow>
             fromReturnStmt fset info pos path ret = Inr (None, None))"
  using assms
  by (auto simp: fromReturnStmt_def split: option.splits prod.splits)

theorem fromReturnStmt_explicit_error_witness:
  "fromReturnStmt 0 info_return 18 (path_in ret_spread funcType_two) ret_spread
     = Inr (None, None)
   \<and> (\<exists>si e. fromReturnStmt 0 info_return 20 (path_in ret_two funcType_grouped) ret_two
                = Inr (si, Some e))"
proof -
  have e2: "enclosingFunction (path_in ret_spread funcType_two) info_return = Some funcType_two"
    by (simp add: named_T_def named_I_def named_error_def callee_g_def typeExpr_I_def
          call_g_spread_def info_of_def info_return_def funcType_two_def ret_spread_def
          path_in_def)
  have r2: "FuncType_Results funcType_two \<noteq> None"
    by (simp add: funcType_two_def)
  have f2: "findOperand 18 0 (ReturnStmt_Results ret_spread) = Some (0, call_g_spread)"
    by (simp add: callee_g_def call_g_spread_def ret_spread_def)
  have c2: "concreteWithPkg call_g_spread info_return = None"
    by (simp add: named_T_def named_I_def named_error_def callee_g_def call_g_spread_def
          info_of_def info_return_def concreteWithPkg_def concreteType_def)
  have silent: "fromReturnStmt 0 info_return 18 (path_in ret_spread funcType_two) ret_spread
                  = Inr (None, None)"
    using fromReturnStmt_explicit_error
            [of "path_in ret_spread funcType_two" info_return 0 18 ret_spread] e2 r2 f2 c2
    by simp
  have eg: "enclosingFunction (path_in ret_two funcType_grouped) info_return
              = Some funcType_grouped"
    by (simp add: named_T_def named_I_def named_error_def operand_T_def operand_b_def
          typeExpr_I_def info_of_def info_return_def funcType_grouped_def ret_two_def path_in_def)
  have rg: "FuncType_Results funcType_grouped
              = Some \<lparr>FieldList_List = [\<lparr>Field_Names = [8, 9], Field_Type = typeExpr_I\<rparr>]\<rparr>"
    by (simp add: funcType_grouped_def)
  have fg: "findOperand 20 0 (ReturnStmt_Results ret_two) = Some (0, operand_T)"
    by (simp add: operand_T_def operand_b_def ret_two_def)
  have cg: "concreteWithPkg operand_T info_return = Some (named_T, False)"
    by (simp add: named_T_def named_I_def named_error_def operand_T_def info_of_def
          info_return_def concreteWithPkg_def concreteType_def)
  have lg: "length (ReturnStmt_Results ret_two) = 2"
    by (simp add: ret_two_def)
  have "\<exists>si e. fromReturnStmt 0 info_return 20 (path_in ret_two funcType_grouped) ret_two
                = Inr (si, Some e)"
    using fromReturnStmt_explicit_error
            [of "path_in ret_two funcType_grouped" info_return 0 20 ret_two] eg rg fg cg lg
    by auto
  with silent show ?thesis by simp
qed

text \<open>
  Claim C1.  In \<^verbatim>\<open>func f() (a, b I) { return T{}, T{} }\<close> the position lies in the
  first operand, whose type is the named type \<^verbatim>\<open>T\<close> of package \<^verbatim>\<open>p\<close>, and the
  declared result type is the named interface \<^verbatim>\<open>I\<close>.  The declared result list has
  one field for the two results, so the analyzer returns the error for a mismatch of
  operands and results and no result.  With one field per result,
  \<^verbatim>\<open>func f() (I, I)\<close>, it returns the result for \<^verbatim>\<open>I\<close> and \<^verbatim>\<open>T\<close>.
\<close>

theorem fromReturnStmt_grouped_results:
  "fromReturnStmt 0 info_return 20 (path_in ret_two funcType_grouped) ret_two
     = Inr (None, Some (OperandResultMismatch 2 1))
   \<and> fromReturnStmt 0 info_return 20 (path_in ret_two funcType_two) ret_two
     = Inr (Some (stub (Obj named_I) named_T False), None)"
  by (simp add: named_T_def named_I_def named_error_def operand_T_def operand_b_def
        typeExpr_I_def stub_def info_of_def info_return_def funcType_grouped_def funcType_two_def
        ret_two_def path_in_def fromReturnStmt_def concreteWithPkg_def concreteType_def
        ifaceType_def ifaceObjFromType_def IsInterface_def)

text \<open>
  Claim C9.  In \<^verbatim>\<open>func f() { return g(T{}) }\<close> with
  \<^verbatim>\<open>func g(x interface{ M() }) W\<close>, queried at the position of \<^verbatim>\<open>T{}\<close>, the call
  analyzer fails (the parameter is an interface literal), the dispatcher walks on to
  the return statement, the operand \<^verbatim>\<open>g(T{})\<close> has the named type \<^verbatim>\<open>W\<close>, and the
  enclosing function has no result list: \<^verbatim>\<open>funcType.Results.List\<close> dereferences a
  nil pointer.
\<close>

theorem GetStubInfo_panics_without_results:
  "GetStubInfo 0 info_literal
     (ExprNode operand_T # ExprNode call_g # path_in ret_call funcType_none) 20
     = Inl NilPointerDereference"
  by (simp add: named_T_def named_W_def named_I_def operand_T_def callee_g_def call_g_def
        info_of_def info_literal_def funcType_none_def ret_call_def path_in_def GetStubInfo_def
        fromCallExpr_def fromReturnStmt_def fromValueSpec_def fromAssignStmt_def
        concreteWithPkg_def concreteType_def ifaceType_def ifaceObjFromType_def IsInterface_def
        paramType_def At_def)

section \<open>Aliases\<close>



























section \<open>Where the analysis does not panic, and where the return analyzer succeeds\<close>

lemma enclosingFunction_hasResults:
  "list_all hasResults path \<Longrightarrow> enclosingFunction path info = Some funcType \<Longrightarrow>
     FuncType_Results funcType \<noteq> None"
proof (induction path)
  case Nil
  then show ?case by simp
next
  case (Cons n path)
  then show ?case
    by (cases n) (auto split: option.splits)
qed

lemma fromReturnStmt_no_panic:
  assumes "list_all hasResults path"
  shows "fromReturnStmt fset info pos path ret \<noteq> Inl p"
  using enclosingFunction_hasResults [OF assms, of info]
  by (auto simp: fromReturnStmt_def split: option.splits prod.splits)

lemma paramType_no_panic:
  assumes "variadic \<longrightarrow> params \<noteq> []"
  shows "paramType params variadic argIdx \<noteq> Inl p"
  using assms
  by (cases params rule: rev_cases)
     (auto simp: paramType_def At_def split: gotype.splits if_splits)

lemma fromCallExpr_no_panic:
  assumes "variadicHasParam info"
  shows "fromCallExpr fset info pos callFun callArgs \<noteq> Inl p"
proof
  assume panics: "fromCallExpr fset info pos callFun callArgs = Inl p"
  then obtain tv params variadic argIdx where
    t: "Types info (ExprId callFun) = Some tv" "Unalias tv = TSignature params variadic"
    and pt: "paramType params variadic argIdx = Inl p"
    by (auto simp: fromCallExpr_def split: option.splits prod.splits gotype.splits sum.splits)
  from assms t have "variadic \<longrightarrow> params \<noteq> []"
    unfolding variadicHasParam_def by (cases variadic) auto
  from paramType_no_panic [OF this] pt show False by blast
qed

lemma GetStubInfo_loop_no_panic:
  assumes "list_all hasResults path" "variadicHasParam info"
  shows "GetStubInfo_loop fset info path pos ns \<noteq> Inl p"
proof (induction ns)
  case Nil
  then show ?case by simp
next
  case (Cons n ns)
  show ?case
  proof (cases n)
    case (ReturnStmtNode ret)
    with fromReturnStmt_no_panic [OF assms(1), of fset info pos ret] show ?thesis
      by (auto split: sum.splits)
  next
    case (ExprNode e)
    show ?thesis
    proof (cases e)
      case (CallExpr m callFun callArgs rparen)
      with ExprNode Cons fromCallExpr_no_panic [OF assms(2), of fset pos callFun callArgs]
      show ?thesis by (auto split: sum.splits option.splits)
    next
      case (OtherExpr m a b)
      with ExprNode Cons show ?thesis by simp
    qed
  qed (simp_all add: Cons)
qed

text \<open>
  When every function type on the path has a result list and every variadic signature
  has a parameter, the dispatcher returns a result or nil and does not panic.
\<close>

theorem GetStubInfo_returns:
  assumes "list_all hasResults path" and "variadicHasParam info"
  shows "\<exists>r. GetStubInfo fset info path pos = Inr r"
proof (cases "GetStubInfo fset info path pos")
  case (Inl p)
  with GetStubInfo_loop_no_panic [OF assms, of fset pos path p] show ?thesis
    by (simp add: GetStubInfo_def)
next
  case (Inr r)
  then show ?thesis by blast
qed

theorem GetStubInfo_returns_witness:
  "\<exists>r. GetStubInfo 0 info_decl [ExprNode operand_T, ValueSpecNode spec_typed] 20 = Inr r"
proof -
  have h: "list_all hasResults [ExprNode operand_T, ValueSpecNode spec_typed]"
    by simp
  have v: "variadicHasParam info_decl"
    by (auto simp: variadicHasParam_def info_decl_def info_of_def split: if_splits)
  from GetStubInfo_returns [OF h v] show ?thesis .
qed

text \<open>
  When the position lies in a return operand whose type resolves to a named type with
  a declaring package, the enclosing function's result list has one field per
  operand, and the type of the field at the operand's index resolves to a named
  interface, \<^verbatim>\<open>fromReturnStmt\<close> returns that interface and that named type, and no
  error.
\<close>

theorem fromReturnStmt_result:
  assumes "findOperand pos 0 (ReturnStmt_Results ret) = Some (i, r)"
    and "concreteType r info = (Some named, pointer)"
    and "Pkg (Obj named) = Some pkg"
    and "enclosingFunction path info = Some funcType"
    and "FuncType_Results funcType = Some results"
    and "length (FieldList_List results) = length (ReturnStmt_Results ret)"
    and "ifaceType (Some (Field_Type (FieldList_List results ! i))) info = Some iface"
  shows "fromReturnStmt fset info pos path ret =
           Inr (Some \<lparr>Fset = fset, Interface = iface, Concrete = named, Pointer = pointer\<rparr>,
                None)"
  using assms by (simp add: fromReturnStmt_def concreteWithPkg_def)

theorem fromReturnStmt_result_witness:
  "fromReturnStmt 0 info_return 25 (path_in ret_two funcType_two) ret_two =
     Inr (Some \<lparr>Fset = 0, Interface = Obj named_I, Concrete = named_T, Pointer = False\<rparr>, None)"
proof -
  have f: "findOperand 25 0 (ReturnStmt_Results ret_two) = Some (1, operand_b)"
    by (simp add: ret_two_def operand_T_def operand_b_def)
  have c: "concreteType operand_b info_return = (Some named_T, False)"
    by (simp add: concreteType_def operand_b_def info_return_def info_of_def)
  have k: "Pkg (Obj named_T) = Some ''p''"
    by (simp add: named_T_def)
  have e: "enclosingFunction (path_in ret_two funcType_two) info_return = Some funcType_two"
    by (simp add: path_in_def info_return_def info_of_def)
  have l: "length (FieldList_List \<lparr>FieldList_List =
             [\<lparr>Field_Names = [], Field_Type = typeExpr_I\<rparr>,
              \<lparr>Field_Names = [], Field_Type = OtherExpr 10 16 17\<rparr>]\<rparr>)
           = length (ReturnStmt_Results ret_two)"
    by (simp add: ret_two_def)
  have t: "ifaceType (Some (Field_Type (FieldList_List \<lparr>FieldList_List =
             [\<lparr>Field_Names = [], Field_Type = typeExpr_I\<rparr>,
              \<lparr>Field_Names = [], Field_Type = OtherExpr 10 16 17\<rparr>]\<rparr> ! 1))) info_return
           = Some (Obj named_I)"
    by (simp add: ifaceType_def ifaceObjFromType_def IsInterface_def info_return_def info_of_def
          named_I_def)
  from fromReturnStmt_result [OF f c k e _ l t, of 0] show ?thesis
    by (simp add: funcType_two_def)
qed

end
